theory Spec2Isabelle
  imports Main "HOL-Library.Word" "HOL-Library.Signed_Division"
begin

section \<open>Package terminal: keys, key decoding, style primitives\<close>

text \<open>
  \<^verbatim>\<open>type KeyType int\<close> with its ten constants, in the order of the \<^verbatim>\<open>iota\<close>
  block; \<open>KeyRune\<close> is the zero value.
\<close>

datatype KeyType =
  KeyRune | KeyEnter | KeyEscape | KeyBackspace | KeyTab
  | KeyUp | KeyDown | KeyLeft | KeyRight | KeyCtrlC

text \<open>
  \<^verbatim>\<open>type Key struct { Type KeyType; Rune rune }\<close>. A Go \<^verbatim>\<open>rune\<close> is an
  \<^verbatim>\<open>int32\<close>; a composite literal that names only \<open>Type\<close> leaves \<open>Rune\<close> zero.
\<close>

record Key =
  Type :: KeyType
  Rune :: "32 word"

definition mkKey :: "KeyType \<Rightarrow> Key" where
  \<comment> \<open>\<^verbatim>\<open>Key{Type: t}\<close>\<close>
  "mkKey t = \<lparr>Type = t, Rune = 0\<rparr>"

definition runeKey :: "32 word \<Rightarrow> Key" where
  \<comment> \<open>\<^verbatim>\<open>Key{Type: KeyRune, Rune: r}\<close>\<close>
  "runeKey r = \<lparr>Type = KeyRune, Rune = r\<rparr>"

datatype io_error = ReadFailed

text \<open>
  \<^verbatim>\<open>Terminal.ReadKey\<close>. The argument is what \<^verbatim>\<open>os.Stdin.Read(buf)\<close> returned for
  the three-byte buffer: an error, or the count \<open>n\<close> with the buffer's three bytes
  (a fresh buffer, so bytes past \<open>n\<close> are whatever the read left there).
\<close>

definition ReadKey :: "io_error + (int \<times> 8 word \<times> 8 word \<times> 8 word) \<Rightarrow> io_error + Key" where
  "ReadKey r =
     (case r of
        Inl err \<Rightarrow> Inl err
      | Inr (n, b0, b1, b2) \<Rightarrow>
          if n = 1 then
            (if b0 = 3 then Inr (mkKey KeyCtrlC)
             else if b0 = 9 then Inr (mkKey KeyTab)
             else if b0 = 13 then Inr (mkKey KeyEnter)
             else if b0 = 27 then Inr (mkKey KeyEscape)
             else if b0 = 127 then Inr (mkKey KeyBackspace)
             else Inr (runeKey (ucast b0)))
          else if n \<ge> 3 \<and> b0 = 27 \<and> b1 = 91 \<and> b2 = 65 then Inr (mkKey KeyUp)
          else if n \<ge> 3 \<and> b0 = 27 \<and> b1 = 91 \<and> b2 = 66 then Inr (mkKey KeyDown)
          else if n \<ge> 3 \<and> b0 = 27 \<and> b1 = 91 \<and> b2 = 67 then Inr (mkKey KeyRight)
          else if n \<ge> 3 \<and> b0 = 27 \<and> b1 = 91 \<and> b2 = 68 then Inr (mkKey KeyLeft)
          else Inr (runeKey (ucast b0)))"

datatype panic = SliceBoundsOutOfRange | IntegerDivideByZero

text \<open>
  \<^verbatim>\<open>terminal.Truncate(s, max)\<close>. Strings are byte sequences and \<^verbatim>\<open>len\<close> counts
  bytes. The slice \<^verbatim>\<open>s[:k]\<close> panics when \<open>k\<close> is negative (it cannot exceed
  \<^verbatim>\<open>len(s)\<close> on the paths that slice, since they are taken only when
  \<^verbatim>\<open>len(s) > max\<close>).
\<close>

definition slice_to :: "string \<Rightarrow> int \<Rightarrow> panic + string" where
  \<comment> \<open>\<^verbatim>\<open>s[:k]\<close>\<close>
  "slice_to s k =
     (if k < 0 \<or> k > int (length s) then Inl SliceBoundsOutOfRange
      else Inr (take (nat k) s))"

definition Truncate :: "string \<Rightarrow> int \<Rightarrow> panic + string" where
  "Truncate s mx =
     (if int (length s) \<le> mx then Inr s
      else if mx \<le> 3 then slice_to s mx
      else (case slice_to s (mx - 3) of
              Inl p \<Rightarrow> Inl p
            | Inr pre \<Rightarrow> Inr (pre @ ''...'')))"

section \<open>Package components: the tab bar\<close>

record Tab =
  tab_ID :: string
  tab_Name :: string
  tab_Key :: string
  tab_Icon :: string

record TabBar =
  tabs :: "Tab list"
  active :: int

definition NewTabBar :: "Tab list \<Rightarrow> TabBar" where
  "NewTabBar ts = \<lparr>tabs = ts, active = 0\<rparr>"

definition SetActive :: "int \<Rightarrow> TabBar \<Rightarrow> TabBar" where
  "SetActive index t =
     (if index \<ge> 0 \<and> index < int (length (tabs t)) then t\<lparr>active := index\<rparr> else t)"

text \<open>
  The \<^verbatim>\<open>for i, tab := range t.tabs\<close> loop of \<^verbatim>\<open>SetActiveByID\<close>: the index of
  the first tab with the given ID, counting from \<open>i\<close>.
\<close>

fun first_tab_with_ID :: "string \<Rightarrow> Tab list \<Rightarrow> int \<Rightarrow> int option" where
  "first_tab_with_ID ident [] i = None"
| "first_tab_with_ID ident (tab # rest) i =
     (if tab_ID tab = ident then Some i else first_tab_with_ID ident rest (i + 1))"

definition SetActiveByID :: "string \<Rightarrow> TabBar \<Rightarrow> TabBar" where
  "SetActiveByID ident t =
     (case first_tab_with_ID ident (tabs t) 0 of
        Some i \<Rightarrow> t\<lparr>active := i\<rparr>
      | None \<Rightarrow> t)"

definition ActiveTab :: "TabBar \<Rightarrow> Tab option" where
  "ActiveTab t =
     (if active t \<ge> 0 \<and> active t < int (length (tabs t))
      then Some (tabs t ! nat (active t)) else None)"

text \<open>
  \<^verbatim>\<open>t.active = (t.active + 1) % len(t.tabs)\<close>. Go's \<^verbatim>\<open>%\<close> truncates towards zero
  (\<open>smod\<close>) and panics on a zero divisor. The index is far below the 64-bit limit
  (it is bounded by a slice length), so the addition does not wrap.
\<close>

definition Next :: "TabBar \<Rightarrow> panic + TabBar" where
  "Next t =
     (if length (tabs t) = 0 then Inl IntegerDivideByZero
      else Inr (t\<lparr>active := (active t + 1) smod int (length (tabs t))\<rparr>))"

text \<open>Calling \<^verbatim>\<open>Next\<close> \<open>k\<close> times in a row; a panic ends the run.\<close>

fun Next_times :: "nat \<Rightarrow> TabBar \<Rightarrow> panic + TabBar" where
  "Next_times 0 t = Inr t"
| "Next_times (Suc k) t =
     (case Next t of Inl p \<Rightarrow> Inl p | Inr t' \<Rightarrow> Next_times k t')"

text \<open>The operations a caller can apply to a tab bar, and a run of them.\<close>

datatype TabOp = OpSetActive int | OpSetActiveByID string | OpNext

fun tab_step :: "TabOp \<Rightarrow> TabBar \<Rightarrow> panic + TabBar" where
  "tab_step (OpSetActive i) t = Inr (SetActive i t)"
| "tab_step (OpSetActiveByID s) t = Inr (SetActiveByID s t)"
| "tab_step OpNext t = Next t"

fun tab_run :: "TabOp list \<Rightarrow> TabBar \<Rightarrow> panic + TabBar" where
  "tab_run [] t = Inr t"
| "tab_run (op # ops) t =
     (case tab_step op t of Inl p \<Rightarrow> Inl p | Inr t' \<Rightarrow> tab_run ops t')"

section \<open>Package components: the scrollable, filterable list\<close>

text \<open>
  \<^verbatim>\<open>ListItem\<close>. The \<^verbatim>\<open>Data interface{}\<close> payload is left out: no method of the
  list reads it.
\<close>

record ListItem =
  item_ID :: string
  item_Icon :: string
  item_Label :: string
  item_Sublabel :: string

text \<open>
  \<^verbatim>\<open>List\<close>. The code tells a filter from no filter by \<^verbatim>\<open>len(l.filtered) > 0\<close>
  only, so the \<^verbatim>\<open>nil\<close> slice and the empty slice are both \<open>[]\<close> here. Indices,
  selection and scroll offset are Go \<^verbatim>\<open>int\<close>s, bounded by slice lengths, hence
  modelled by \<open>int\<close> without wrap-around.
\<close>

record List =
  title :: string
  items :: "ListItem list"
  filtered :: "int list"
  selected :: int
  scroll :: int
  height :: int
  filterMode :: bool
  filterQuery :: string

definition NewList :: "string \<Rightarrow> List" where
  "NewList t = \<lparr>title = t, items = [], filtered = [], selected = 0, scroll = 0,
                 height = 0, filterMode = False, filterQuery = []\<rparr>"

definition ClearFilter :: "List \<Rightarrow> List" where
  "ClearFilter l = l\<lparr>filterQuery := [], filtered := [], selected := 0, scroll := 0\<rparr>"

definition SetItems :: "ListItem list \<Rightarrow> List \<Rightarrow> List" where
  "SetItems its l = ClearFilter (l\<lparr>items := its\<rparr>)"

definition SelectedIndex :: "List \<Rightarrow> int" where
  "SelectedIndex l = selected l"

definition activeIndices :: "List \<Rightarrow> int list" where
  "activeIndices l =
     (if length (filtered l) > 0 then filtered l
      else map int [0..<length (items l)])"

definition adjustScroll :: "List \<Rightarrow> List" where
  "adjustScroll l =
     (if height l \<le> 0 then l
      else
        let l1 = (if selected l < scroll l then l\<lparr>scroll := selected l\<rparr> else l)
        in if selected l1 \<ge> scroll l1 + height l1
           then l1\<lparr>scroll := selected l1 - height l1 + 1\<rparr> else l1)"

definition MoveUp :: "List \<Rightarrow> List" where
  "MoveUp l =
     (if selected l > 0 then adjustScroll (l\<lparr>selected := selected l - 1\<rparr>) else l)"

definition MoveDown :: "List \<Rightarrow> List" where
  "MoveDown l =
     (if selected l < int (length (activeIndices l)) - 1
      then adjustScroll (l\<lparr>selected := selected l + 1\<rparr>) else l)"

definition MoveToTop :: "List \<Rightarrow> List" where
  "MoveToTop l = l\<lparr>selected := 0, scroll := 0\<rparr>"

definition MoveToBottom :: "List \<Rightarrow> List" where
  "MoveToBottom l =
     (let indices = activeIndices l
      in if length indices > 0
         then adjustScroll (l\<lparr>selected := int (length indices) - 1\<rparr>) else l)"


definition lower_byte :: "char \<Rightarrow> char" where
  "lower_byte c =
     (let n = (of_char c :: nat)
      in if 65 \<le> n \<and> n \<le> 90 then char_of (n + 32) else c)"

definition ToLower :: "string \<Rightarrow> string" where
  "ToLower s = map lower_byte s"

fun Contains :: "string \<Rightarrow> string \<Rightarrow> bool" where
  "Contains [] sub = (sub = [])"
| "Contains (c # cs) sub = (take (length sub) (c # cs) = sub \<or> Contains cs sub)"

text \<open>
  The loop of \<^verbatim>\<open>applyFilter\<close>: \<^verbatim>\<open>for i, item := range l.items\<close> appends \<open>i\<close>
  when the lower-cased label contains the (already lower-cased) query.
\<close>

fun matching_from :: "string \<Rightarrow> ListItem list \<Rightarrow> int \<Rightarrow> int list" where
  "matching_from query [] i = []"
| "matching_from query (item # rest) i =
     (if Contains (ToLower (item_Label item)) query
      then i # matching_from query rest (i + 1)
      else matching_from query rest (i + 1))"

definition applyFilter :: "List \<Rightarrow> List" where
  "applyFilter l =
     (if filterQuery l = [] then l\<lparr>filtered := []\<rparr>
      else l\<lparr>filtered := matching_from (ToLower (filterQuery l)) (items l) 0,
             selected := 0, scroll := 0\<rparr>)"

definition SetFilter :: "string \<Rightarrow> List \<Rightarrow> List" where
  "SetFilter query l = applyFilter (l\<lparr>filterQuery := query\<rparr>)"

definition ToggleFilterMode :: "List \<Rightarrow> List" where
  "ToggleFilterMode l =
     (let l1 = l\<lparr>filterMode := \<not> filterMode l\<rparr>
      in if \<not> filterMode l1 then ClearFilter l1 else l1)"

definition IsFilterMode :: "List \<Rightarrow> bool" where
  "IsFilterMode l = filterMode l"

definition FilterQuery :: "List \<Rightarrow> string" where
  "FilterQuery l = filterQuery l"

text \<open>The four selection moves, and a run of them on one list.\<close>

datatype Move = Up | Down | Top | Bottom

fun move :: "Move \<Rightarrow> List \<Rightarrow> List" where
  "move Up l = MoveUp l"
| "move Down l = MoveDown l"
| "move Top l = MoveToTop l"
| "move Bottom l = MoveToBottom l"

fun moves :: "Move list \<Rightarrow> List \<Rightarrow> List" where
  "moves [] l = l"
| "moves (m # ms) l = moves ms (move m l)"






definition labelled :: "string \<Rightarrow> ListItem" where
  \<comment> \<open>\<^verbatim>\<open>ListItem{Label: label}\<close>\<close>
  "labelled label = \<lparr>item_ID = [], item_Icon = [], item_Label = label, item_Sublabel = []\<rparr>"

section \<open>Package components: status bar and text input\<close>

text \<open>
  Instants of \<^verbatim>\<open>time.Time\<close> are natural numbers, \<open>0\<close> the zero value
  (\<^verbatim>\<open>IsZero\<close>). Each reading of \<^verbatim>\<open>time.Now()\<close> is an argument of the function
  that takes it.
\<close>

type_synonym Time = nat

record StatusBar =
  message :: string
  messageTime :: Time
  sb_lastRefresh :: Time
  helpText :: string

definition NewStatusBar :: StatusBar where
  "NewStatusBar = \<lparr>message = [], messageTime = 0, sb_lastRefresh = 0, helpText = []\<rparr>"

definition SetMessage :: "Time \<Rightarrow> string \<Rightarrow> StatusBar \<Rightarrow> StatusBar" where
  "SetMessage now msg s = s\<lparr>message := msg, messageTime := now\<rparr>"

definition SetLastRefresh :: "Time \<Rightarrow> StatusBar \<Rightarrow> StatusBar" where
  "SetLastRefresh t s = s\<lparr>sb_lastRefresh := t\<rparr>"

record Input =
  input_value :: string
  input_prompt :: string
  input_active :: bool

definition NewInput :: "string \<Rightarrow> Input" where
  "NewInput p = \<lparr>input_value = [], input_prompt = p, input_active = False\<rparr>"

definition Value :: "Input \<Rightarrow> string" where
  "Value i = input_value i"

definition Clear :: "Input \<Rightarrow> Input" where
  "Clear i = i\<lparr>input_value := []\<rparr>"

definition Activate :: "Input \<Rightarrow> Input" where
  "Activate i = i\<lparr>input_active := True\<rparr>"

definition Deactivate :: "Input \<Rightarrow> Input" where
  "Deactivate i = i\<lparr>input_active := False\<rparr>"

text \<open>
  The Go conversion \<^verbatim>\<open>string(c)\<close> of a rune: its UTF-8 encoding, and the encoding
  of U+FFFD for a value that is no Unicode scalar.
\<close>

definition string_of_rune :: "32 word \<Rightarrow> string" where
  "string_of_rune r =
     (let c = sint r
      in if c < 0 \<or> c > 0x10FFFF \<or> (0xD800 \<le> c \<and> c \<le> 0xDFFF)
         then [char_of (0xEF :: int), char_of (0xBF :: int), char_of (0xBD :: int)]
         else if c < 0x80 then [char_of c]
         else if c < 0x800 then [char_of (0xC0 + c div 64), char_of (0x80 + c mod 64)]
         else if c < 0x10000
           then [char_of (0xE0 + c div 4096), char_of (0x80 + (c div 64) mod 64),
                 char_of (0x80 + c mod 64)]
         else [char_of (0xF0 + c div 262144), char_of (0x80 + (c div 4096) mod 64),
               char_of (0x80 + (c div 64) mod 64), char_of (0x80 + c mod 64)])"

definition InsertChar :: "32 word \<Rightarrow> Input \<Rightarrow> Input" where
  "InsertChar c i = i\<lparr>input_value := input_value i @ string_of_rune c\<rparr>"

definition Backspace :: "Input \<Rightarrow> Input" where
  "Backspace i =
     (if length (input_value i) > 0 then i\<lparr>input_value := butlast (input_value i)\<rparr> else i)"

section \<open>Package views\<close>

text \<open>
  \<^verbatim>\<open>type ViewID string\<close> with its eight constants; \<open>ViewUnset\<close> is the zero value
  \<^verbatim>\<open>""\<close>, which \<^verbatim>\<open>previousView\<close> holds until the first switch.
\<close>

datatype ViewID =
  ViewDashboard | ViewBoards | ViewPipelines | ViewRepos | ViewPullRequests
  | ViewCopilot | ViewWorkItemDetail | ViewPRDetail | ViewUnset

text \<open>
  The records of the remote service (\<^verbatim>\<open>domain.WorkItem\<close>, \<^verbatim>\<open>Build\<close>,
  \<^verbatim>\<open>Pipeline\<close>, \<^verbatim>\<open>Repository\<close>, \<^verbatim>\<open>PullRequest\<close>) are the type parameters
  \<open>'w\<close>, \<open>'b\<close>, \<open>'p\<close>, \<open>'r\<close>, \<open>'q\<close>. The views never look inside them except to
  build list rows; that formatting (\<^verbatim>\<open>fmt.Sprintf\<close> of id, title and state) is
  the argument \<open>row\<close> of each setter.
\<close>

record ('w, 'b, 'q) DashboardView =
  dash_workItems :: "'w list"
  dash_builds :: "'b list"
  dash_prs :: "'q list"

definition SetData ::
  "'w list \<Rightarrow> 'b list \<Rightarrow> 'q list \<Rightarrow> ('w, 'b, 'q) DashboardView \<Rightarrow> ('w, 'b, 'q) DashboardView" where
  "SetData its bs ps v = v\<lparr>dash_workItems := its, dash_builds := bs, dash_prs := ps\<rparr>"

text \<open>
  The key handling that the four list views share word for word. In filter mode
  (\<^verbatim>\<open>if v.list.IsFilterMode() { ... }\<close>) the list takes Enter, Escape, Backspace and
  every rune; otherwise the arrows and the runes \<open>j k g G f /\<close> drive the list.
  Each returns the \<^verbatim>\<open>bool\<close> of \<^verbatim>\<open>HandleKey\<close> and the list after the key.
\<close>

definition filter_mode_keys :: "Key \<Rightarrow> List \<Rightarrow> bool \<times> List" where
  "filter_mode_keys key l =
     (case Type key of
        KeyEnter \<Rightarrow> (True, ToggleFilterMode l)
      | KeyEscape \<Rightarrow> (True, ToggleFilterMode l)
      | KeyBackspace \<Rightarrow>
          (let q = FilterQuery l
           in (True, if length q > 0 then SetFilter (butlast q) l else l))
      | KeyRune \<Rightarrow> (True, SetFilter (FilterQuery l @ string_of_rune (Rune key)) l)
      | _ \<Rightarrow> (False, l))"

definition navigation_keys :: "Key \<Rightarrow> List \<Rightarrow> bool \<times> List" where
  "navigation_keys key l =
     (case Type key of
        KeyUp \<Rightarrow> (True, MoveUp l)
      | KeyDown \<Rightarrow> (True, MoveDown l)
      | KeyRune \<Rightarrow>
          (if Rune key = 106 then (True, MoveDown l) \<comment> \<open>\<^verbatim>\<open>'j'\<close>\<close>
           else if Rune key = 107 then (True, MoveUp l) \<comment> \<open>\<^verbatim>\<open>'k'\<close>\<close>
           else if Rune key = 103 then (True, MoveToTop l) \<comment> \<open>\<^verbatim>\<open>'g'\<close>\<close>
           else if Rune key = 71 then (True, MoveToBottom l) \<comment> \<open>\<^verbatim>\<open>'G'\<close>\<close>
           else if Rune key = 102 \<or> Rune key = 47 then (True, ToggleFilterMode l)
             \<comment> \<open>\<^verbatim>\<open>'f', '/'\<close>\<close>
           else (False, l))
      | _ \<Rightarrow> (False, l))"

record 'w BoardsView =
  boards_list :: List
  boards_workItems :: "'w list"

definition SetWorkItems :: "('w \<Rightarrow> ListItem) \<Rightarrow> 'w list \<Rightarrow> 'w BoardsView \<Rightarrow> 'w BoardsView" where
  "SetWorkItems row its v =
     v\<lparr>boards_workItems := its, boards_list := SetItems (map row its) (boards_list v)\<rparr>"

definition SelectedWorkItem :: "'w BoardsView \<Rightarrow> 'w option" where
  "SelectedWorkItem v =
     (let idx = SelectedIndex (boards_list v)
      in if idx \<ge> 0 \<and> idx < int (length (boards_workItems v))
         then Some (boards_workItems v ! nat idx) else None)"

text \<open>
  \<^verbatim>\<open>BoardsView.HandleKey\<close>. The third component is the work item handed to the
  \<^verbatim>\<open>onSelect\<close> callback when Enter finds a selection (the callback is set by
  \<^verbatim>\<open>NewApp\<close>, so it is never \<^verbatim>\<open>nil\<close>); the controller below runs the callback.
\<close>

definition BoardsView_HandleKey :: "Key \<Rightarrow> 'w BoardsView \<Rightarrow> bool \<times> 'w BoardsView \<times> 'w option" where
  "BoardsView_HandleKey key v =
     (if IsFilterMode (boards_list v)
      then (case filter_mode_keys key (boards_list v) of
              (handled, l) \<Rightarrow> (handled, v\<lparr>boards_list := l\<rparr>, None))
      else if Type key = KeyEnter then (True, v, SelectedWorkItem v)
      else (case navigation_keys key (boards_list v) of
              (handled, l) \<Rightarrow> (handled, v\<lparr>boards_list := l\<rparr>, None)))"

record 'p PipelinesView =
  pipelines_list :: List
  pipelines_items :: "'p list"

definition SetPipelines :: "('p \<Rightarrow> ListItem) \<Rightarrow> 'p list \<Rightarrow> 'p PipelinesView \<Rightarrow> 'p PipelinesView" where
  "SetPipelines row its v =
     v\<lparr>pipelines_items := its, pipelines_list := SetItems (map row its) (pipelines_list v)\<rparr>"

definition PipelinesView_HandleKey :: "Key \<Rightarrow> 'p PipelinesView \<Rightarrow> bool \<times> 'p PipelinesView" where
  "PipelinesView_HandleKey key v =
     (case (if IsFilterMode (pipelines_list v) then filter_mode_keys key (pipelines_list v)
            else navigation_keys key (pipelines_list v)) of
        (handled, l) \<Rightarrow> (handled, v\<lparr>pipelines_list := l\<rparr>))"

record 'r ReposView =
  repos_list :: List
  repos_items :: "'r list"

definition SetRepositories :: "('r \<Rightarrow> ListItem) \<Rightarrow> 'r list \<Rightarrow> 'r ReposView \<Rightarrow> 'r ReposView" where
  "SetRepositories row its v =
     v\<lparr>repos_items := its, repos_list := SetItems (map row its) (repos_list v)\<rparr>"

definition ReposView_HandleKey :: "Key \<Rightarrow> 'r ReposView \<Rightarrow> bool \<times> 'r ReposView" where
  "ReposView_HandleKey key v =
     (case (if IsFilterMode (repos_list v) then filter_mode_keys key (repos_list v)
            else navigation_keys key (repos_list v)) of
        (handled, l) \<Rightarrow> (handled, v\<lparr>repos_list := l\<rparr>))"

record 'q PullRequestsView =
  prs_list :: List
  prs_items :: "'q list"

definition SetPullRequests ::
  "('q \<Rightarrow> ListItem) \<Rightarrow> 'q list \<Rightarrow> 'q PullRequestsView \<Rightarrow> 'q PullRequestsView" where
  "SetPullRequests row its v =
     v\<lparr>prs_items := its, prs_list := SetItems (map row its) (prs_list v)\<rparr>"

definition SelectedPR :: "'q PullRequestsView \<Rightarrow> 'q option" where
  "SelectedPR v =
     (let idx = SelectedIndex (prs_list v)
      in if idx \<ge> 0 \<and> idx < int (length (prs_items v))
         then Some (prs_items v ! nat idx) else None)"

definition PullRequestsView_HandleKey ::
  "Key \<Rightarrow> 'q PullRequestsView \<Rightarrow> bool \<times> 'q PullRequestsView \<times> 'q option" where
  "PullRequestsView_HandleKey key v =
     (if IsFilterMode (prs_list v)
      then (case filter_mode_keys key (prs_list v) of
              (handled, l) \<Rightarrow> (handled, v\<lparr>prs_list := l\<rparr>, None))
      else if Type key = KeyEnter then (True, v, SelectedPR v)
      else (case navigation_keys key (prs_list v) of
              (handled, l) \<Rightarrow> (handled, v\<lparr>prs_list := l\<rparr>, None)))"

text \<open>
  \<^verbatim>\<open>CopilotMessage\<close> without its \<^verbatim>\<open>Time\<close> stamp, which nothing reads.
\<close>

record CopilotMessage =
  IsUser :: bool
  Content :: string

record CopilotView =
  copilot_input :: Input
  copilot_history :: "CopilotMessage list"

definition NewCopilotView :: CopilotView where
  "NewCopilotView = \<lparr>copilot_input = NewInput ''apo> '', copilot_history = []\<rparr>"

text \<open>
  \<^verbatim>\<open>strings.TrimSpace\<close> on strings of ASCII bytes: leading and trailing tab,
  line feed, vertical tab, form feed, carriage return and space are dropped. The
  library also trims Unicode white space beyond ASCII, which this definition does not
  follow. Only \<^verbatim>\<open>submit\<close> (Enter in the Copilot view) calls it.
\<close>

definition is_space :: "char \<Rightarrow> bool" where
  "is_space c = (let n = (of_char c :: nat) in (9 \<le> n \<and> n \<le> 13) \<or> n = 32)"

definition TrimSpace :: "string \<Rightarrow> string" where
  "TrimSpace s = rev (dropWhile is_space (rev (dropWhile is_space s)))"

text \<open>
  \<^verbatim>\<open>CopilotView.submit\<close>. The query interpreter is an outside collaborator:
  \<open>reply query\<close> is the list of lines that \<^verbatim>\<open>submit\<close> appends after the user's
  own line (the result message, one line per suggestion, the non-empty lines of the
  formatted data).
\<close>

definition submit :: "(string \<Rightarrow> string list) \<Rightarrow> CopilotView \<Rightarrow> CopilotView" where
  "submit reply v =
     (let query = TrimSpace (Value (copilot_input v))
      in if query = [] then v
         else v\<lparr>copilot_history :=
                   copilot_history v @ [\<lparr>IsUser = True, Content = query\<rparr>]
                   @ map (\<lambda>line. \<lparr>IsUser = False, Content = line\<rparr>) (reply query),
                 copilot_input := Clear (copilot_input v)\<rparr>)"

definition CopilotView_HandleKey ::
  "(string \<Rightarrow> string list) \<Rightarrow> Key \<Rightarrow> CopilotView \<Rightarrow> bool \<times> CopilotView" where
  "CopilotView_HandleKey reply key v =
     (case Type key of
        KeyEnter \<Rightarrow> (True, submit reply v)
      | KeyBackspace \<Rightarrow> (True, v\<lparr>copilot_input := Backspace (copilot_input v)\<rparr>)
      | KeyRune \<Rightarrow> (True, v\<lparr>copilot_input := InsertChar (Rune key) (copilot_input v)\<rparr>)
      | _ \<Rightarrow> (False, v))"

section \<open>Package ui: the application controller\<close>

text \<open>
  The lifecycle log: which view object had \<^verbatim>\<open>OnEnter\<close>, \<^verbatim>\<open>OnExit\<close> or
  \<^verbatim>\<open>Render\<close> called on it, in call order. The code keeps no such log; it is added
  to the state so that the order of these calls can be stated. A view object is named
  by the \<^verbatim>\<open>ViewID\<close> it was built with.
\<close>

datatype Event = EvOnEnter ViewID | EvOnExit ViewID | EvRender ViewID

text \<open>
  \<^verbatim>\<open>App\<close>. Beside the fields of the struct: the terminal's size and cursor
  visibility (the \<^verbatim>\<open>Terminal\<close> object), the item a detail view points at, the
  lifecycle log, and the number of \<^verbatim>\<open>go a.refreshData()\<close> tasks launched so far.
  The API client, the agent and the configuration are outside collaborators and appear
  as function arguments where they are called.
\<close>

record ('w, 'b, 'p, 'r, 'q) App =
  term_width :: int
  term_height :: int
  cursorVisible :: bool
  tabBar :: TabBar
  statusBar :: StatusBar
  dashboard :: "('w, 'b, 'q) DashboardView"
  boards :: "'w BoardsView"
  pipelines :: "'p PipelinesView"
  repos :: "'r ReposView"
  prs :: "'q PullRequestsView"
  copilot :: CopilotView
  workItemDetail :: "'w option"
  prDetail :: "'q option"
  running :: bool
  currentView :: ViewID
  previousView :: ViewID
  workItems :: "'w list"
  builds :: "'b list"
  pipelineList :: "'p list"
  repoList :: "'r list"
  prList :: "'q list"
  lastRefresh :: Time
  loading :: bool
  events :: "Event list"
  refreshesLaunched :: nat

definition app_tabs :: "Tab list" where
  "app_tabs =
     [\<lparr>tab_ID = ''dashboard'', tab_Name = ''Dashboard'', tab_Key = ''1'',
       tab_Icon = [CHR 0xF0, CHR 0x9F, CHR 0x8F, CHR 0xA0]\<rparr>,
      \<lparr>tab_ID = ''boards'', tab_Name = ''Boards'', tab_Key = ''2'',
       tab_Icon = [CHR 0xF0, CHR 0x9F, CHR 0x93, CHR 0x8B]\<rparr>,
      \<lparr>tab_ID = ''pipelines'', tab_Name = ''Pipelines'', tab_Key = ''3'',
       tab_Icon = [CHR 0xF0, CHR 0x9F, CHR 0x94, CHR 0xA7]\<rparr>,
      \<lparr>tab_ID = ''repos'', tab_Name = ''Repos'', tab_Key = ''4'',
       tab_Icon = [CHR 0xF0, CHR 0x9F, CHR 0x93, CHR 0x81]\<rparr>,
      \<lparr>tab_ID = ''prs'', tab_Name = ''PRs'', tab_Key = ''5'',
       tab_Icon = [CHR 0xF0, CHR 0x9F, CHR 0x94, CHR 0x80]\<rparr>,
      \<lparr>tab_ID = ''copilot'', tab_Name = ''Copilot'', tab_Key = ''/'',
       tab_Icon = [CHR 0xF0, CHR 0x9F, CHR 0xA4, CHR 0x96]\<rparr>]"

text \<open>
  \<^verbatim>\<open>NewApp\<close> on a valid configuration, for a terminal of the given size. The list
  titles carry their icon as UTF-8 bytes. The cursor starts visible; \<^verbatim>\<open>Run\<close> hides
  it.
\<close>

definition NewApp :: "int \<Rightarrow> int \<Rightarrow> ('w, 'b, 'p, 'r, 'q) App" where
  "NewApp w h =
     \<lparr>term_width = w, term_height = h, cursorVisible = True,
      tabBar = NewTabBar app_tabs,
      statusBar = NewStatusBar,
      dashboard = \<lparr>dash_workItems = [], dash_builds = [], dash_prs = []\<rparr>,
      boards = \<lparr>boards_list = NewList ([CHR 0xF0, CHR 0x9F, CHR 0x93, CHR 0x8B] @ '' Work Items''),
                boards_workItems = []\<rparr>,
      pipelines = \<lparr>pipelines_list = NewList ([CHR 0xF0, CHR 0x9F, CHR 0x94, CHR 0xA7] @ '' Pipelines''),
                   pipelines_items = []\<rparr>,
      repos = \<lparr>repos_list = NewList ([CHR 0xF0, CHR 0x9F, CHR 0x93, CHR 0x81] @ '' Repositories''),
               repos_items = []\<rparr>,
      prs = \<lparr>prs_list = NewList ([CHR 0xF0, CHR 0x9F, CHR 0x94, CHR 0x80] @ '' Pull Requests''),
             prs_items = []\<rparr>,
      copilot = NewCopilotView,
      workItemDetail = None, prDetail = None,
      running = False,
      currentView = ViewDashboard, previousView = ViewUnset,
      workItems = [], builds = [], pipelineList = [], repoList = [], prList = [],
      lastRefresh = 0, loading = False,
      events = [], refreshesLaunched = 0\<rparr>"

text \<open>
  \<^verbatim>\<open>getCurrentView\<close> returns a view object; here, the \<^verbatim>\<open>ViewID\<close> that object was
  built with. The \<^verbatim>\<open>default\<close> branch returns the dashboard.
\<close>

definition getCurrentView :: "('w, 'b, 'p, 'r, 'q) App \<Rightarrow> ViewID" where
  "getCurrentView a = (case currentView a of ViewUnset \<Rightarrow> ViewDashboard | v \<Rightarrow> v)"

definition isDetailView :: "('w, 'b, 'p, 'r, 'q) App \<Rightarrow> bool" where
  "isDetailView a \<longleftrightarrow> currentView a = ViewWorkItemDetail \<or> currentView a = ViewPRDetail"

text \<open>
  \<^verbatim>\<open>OnEnter\<close> and \<^verbatim>\<open>OnExit\<close> of the view object \<open>v\<close>: the Copilot view overrides
  them (input activation, cursor visibility); every other view inherits the empty
  methods of \<^verbatim>\<open>BaseView\<close>. Each call is logged.
\<close>

definition view_OnEnter :: "ViewID \<Rightarrow> ('w, 'b, 'p, 'r, 'q) App \<Rightarrow> ('w, 'b, 'p, 'r, 'q) App" where
  "view_OnEnter v a =
     (let a1 = a\<lparr>events := events a @ [EvOnEnter v]\<rparr>
      in if v = ViewCopilot
         then a1\<lparr>copilot := (copilot a1)\<lparr>copilot_input := Activate (copilot_input (copilot a1))\<rparr>,
                 cursorVisible := True\<rparr>
         else a1)"

definition view_OnExit :: "ViewID \<Rightarrow> ('w, 'b, 'p, 'r, 'q) App \<Rightarrow> ('w, 'b, 'p, 'r, 'q) App" where
  "view_OnExit v a =
     (let a1 = a\<lparr>events := events a @ [EvOnExit v]\<rparr>
      in if v = ViewCopilot
         then a1\<lparr>copilot := (copilot a1)\<lparr>copilot_input := Deactivate (copilot_input (copilot a1))\<rparr>,
                 cursorVisible := False\<rparr>
         else a1)"

definition switchToView :: "ViewID \<Rightarrow> ('w, 'b, 'p, 'r, 'q) App \<Rightarrow> ('w, 'b, 'p, 'r, 'q) App" where
  "switchToView ident a =
     (if currentView a = ident then a
      else
        let a1 = view_OnExit (getCurrentView a) a;
            a2 = a1\<lparr>previousView := currentView a1\<rparr>;
            a3 = a2\<lparr>currentView := ident\<rparr>;
            a4 = view_OnEnter (getCurrentView a3) a3
        in (case ident of
              ViewDashboard \<Rightarrow> a4\<lparr>tabBar := SetActiveByID ''dashboard'' (tabBar a4)\<rparr>
            | ViewBoards \<Rightarrow> a4\<lparr>tabBar := SetActiveByID ''boards'' (tabBar a4)\<rparr>
            | ViewPipelines \<Rightarrow> a4\<lparr>tabBar := SetActiveByID ''pipelines'' (tabBar a4)\<rparr>
            | ViewRepos \<Rightarrow> a4\<lparr>tabBar := SetActiveByID ''repos'' (tabBar a4)\<rparr>
            | ViewPullRequests \<Rightarrow> a4\<lparr>tabBar := SetActiveByID ''prs'' (tabBar a4)\<rparr>
            | ViewCopilot \<Rightarrow> a4\<lparr>tabBar := SetActiveByID ''copilot'' (tabBar a4)\<rparr>
            | _ \<Rightarrow> a4))"

definition switchToTabView :: "('w, 'b, 'p, 'r, 'q) App \<Rightarrow> ('w, 'b, 'p, 'r, 'q) App" where
  "switchToTabView a =
     (case ActiveTab (tabBar a) of
        None \<Rightarrow> a
      | Some tab \<Rightarrow>
          if tab_ID tab = ''dashboard'' then switchToView ViewDashboard a
          else if tab_ID tab = ''boards'' then switchToView ViewBoards a
          else if tab_ID tab = ''pipelines'' then switchToView ViewPipelines a
          else if tab_ID tab = ''repos'' then switchToView ViewRepos a
          else if tab_ID tab = ''prs'' then switchToView ViewPullRequests a
          else if tab_ID tab = ''copilot'' then switchToView ViewCopilot a
          else a)"

definition showWorkItemDetail :: "'w \<Rightarrow> ('w, 'b, 'p, 'r, 'q) App \<Rightarrow> ('w, 'b, 'p, 'r, 'q) App" where
  "showWorkItemDetail wi a =
     (let a1 = a\<lparr>workItemDetail := Some wi\<rparr>;
          a2 = a1\<lparr>previousView := currentView a1\<rparr>
      in a2\<lparr>currentView := ViewWorkItemDetail\<rparr>)"

definition showPRDetail :: "'q \<Rightarrow> ('w, 'b, 'p, 'r, 'q) App \<Rightarrow> ('w, 'b, 'p, 'r, 'q) App" where
  "showPRDetail pr a =
     (let a1 = a\<lparr>prDetail := Some pr\<rparr>;
          a2 = a1\<lparr>previousView := currentView a1\<rparr>
      in a2\<lparr>currentView := ViewPRDetail\<rparr>)"

definition setStatus :: "Time \<Rightarrow> string \<Rightarrow> ('w, 'b, 'p, 'r, 'q) App \<Rightarrow> ('w, 'b, 'p, 'r, 'q) App" where
  "setStatus now msg a = a\<lparr>statusBar := SetMessage now msg (statusBar a)\<rparr>"

text \<open>
  \<^verbatim>\<open>a.getCurrentView().HandleKey(key)\<close>: the handler of the current view object,
  with the \<^verbatim>\<open>onSelect\<close> callbacks that \<^verbatim>\<open>NewApp\<close> installs
  (\<^verbatim>\<open>showWorkItemDetail\<close>, \<^verbatim>\<open>showPRDetail\<close>). The dashboard and the two detail
  views return \<^verbatim>\<open>false\<close> for every key.
\<close>

definition view_HandleKey ::
  "(string \<Rightarrow> string list) \<Rightarrow> Key \<Rightarrow> ('w, 'b, 'p, 'r, 'q) App \<Rightarrow> bool \<times> ('w, 'b, 'p, 'r, 'q) App" where
  "view_HandleKey reply key a =
     (case getCurrentView a of
        ViewBoards \<Rightarrow>
          (case BoardsView_HandleKey key (boards a) of
             (handled, v, sel) \<Rightarrow>
               (handled, (case sel of
                            None \<Rightarrow> a\<lparr>boards := v\<rparr>
                          | Some wi \<Rightarrow> showWorkItemDetail wi (a\<lparr>boards := v\<rparr>))))
      | ViewPipelines \<Rightarrow>
          (case PipelinesView_HandleKey key (pipelines a) of
             (handled, v) \<Rightarrow> (handled, a\<lparr>pipelines := v\<rparr>))
      | ViewRepos \<Rightarrow>
          (case ReposView_HandleKey key (repos a) of
             (handled, v) \<Rightarrow> (handled, a\<lparr>repos := v\<rparr>))
      | ViewPullRequests \<Rightarrow>
          (case PullRequestsView_HandleKey key (prs a) of
             (handled, v, sel) \<Rightarrow>
               (handled, (case sel of
                            None \<Rightarrow> a\<lparr>prs := v\<rparr>
                          | Some pr \<Rightarrow> showPRDetail pr (a\<lparr>prs := v\<rparr>))))
      | ViewCopilot \<Rightarrow>
          (case CopilotView_HandleKey reply key (copilot a) of
             (handled, v) \<Rightarrow> (handled, a\<lparr>copilot := v\<rparr>))
      | _ \<Rightarrow> (False, a))"

text \<open>
  \<^verbatim>\<open>handleInput\<close>. \<open>now\<close> is the reading of the clock taken by
  \<^verbatim>\<open>setStatus\<close>, \<open>reply\<close> the query interpreter. \<^verbatim>\<open>go a.refreshData()\<close> only
  launches the task: the launch is counted, the task itself is \<open>refreshData\<close>
  below. The one panic in reach is the division in \<^verbatim>\<open>tabBar.Next()\<close>.
\<close>

definition handleInput ::
  "Time \<Rightarrow> (string \<Rightarrow> string list) \<Rightarrow> Key \<Rightarrow> ('w, 'b, 'p, 'r, 'q) App
     \<Rightarrow> panic + ('w, 'b, 'p, 'r, 'q) App" where
  "handleInput now reply key a =
     (if Type key = KeyCtrlC then Inr (a\<lparr>running := False\<rparr>)
      else if Type key = KeyEscape then
        Inr (if isDetailView a then a\<lparr>currentView := previousView a\<rparr>
             else if currentView a = ViewCopilot then switchToView ViewDashboard a
             else a)
      else
        (case view_HandleKey reply key a of
           (handled, a1) \<Rightarrow>
             if handled then Inr a1
             else if Type key = KeyRune then
               Inr (if Rune key = 113 \<or> Rune key = 81 then a1\<lparr>running := False\<rparr>
                      \<comment> \<open>\<^verbatim>\<open>'q', 'Q'\<close>\<close>
                    else if Rune key = 49 then switchToView ViewDashboard a1 \<comment> \<open>\<^verbatim>\<open>'1'\<close>\<close>
                    else if Rune key = 50 then switchToView ViewBoards a1 \<comment> \<open>\<^verbatim>\<open>'2'\<close>\<close>
                    else if Rune key = 51 then switchToView ViewPipelines a1 \<comment> \<open>\<^verbatim>\<open>'3'\<close>\<close>
                    else if Rune key = 52 then switchToView ViewRepos a1 \<comment> \<open>\<^verbatim>\<open>'4'\<close>\<close>
                    else if Rune key = 53 then switchToView ViewPullRequests a1 \<comment> \<open>\<^verbatim>\<open>'5'\<close>\<close>
                    else if Rune key = 47 \<or> Rune key = 58 then switchToView ViewCopilot a1
                      \<comment> \<open>\<^verbatim>\<open>'/', ':'\<close>\<close>
                    else if Rune key = 114 \<or> Rune key = 82 then
                      (setStatus now ''Refreshing...'' a1)
                        \<lparr>refreshesLaunched := Suc (refreshesLaunched a1)\<rparr>
                      \<comment> \<open>\<^verbatim>\<open>'r', 'R'\<close>\<close>
                    else if Rune key = 98 then
                      (if isDetailView a1 then a1\<lparr>currentView := previousView a1\<rparr> else a1)
                      \<comment> \<open>\<^verbatim>\<open>'b'\<close>\<close>
                    else a1)
             else if Type key = KeyTab then
               (case Next (tabBar a1) of
                  Inl p \<Rightarrow> Inl p
                | Inr t \<Rightarrow> Inr (switchToTabView (a1\<lparr>tabBar := t\<rparr>)))
             else Inr a1))"

datatype fetch_error = FetchFailed

text \<open>
  \<^verbatim>\<open>refreshData\<close>, one refresh cycle run on its own. The five arguments after the
  row formatters are what the five client calls returned, in call order; \<open>stamp\<close> is
  the clock reading stored in \<^verbatim>\<open>lastRefresh\<close> and \<open>now\<close> the later one taken by
  \<^verbatim>\<open>setStatus\<close>. The lock calls have no effect on a cycle that runs alone.
\<close>

definition refreshData ::
  "('w \<Rightarrow> ListItem) \<Rightarrow> ('p \<Rightarrow> ListItem) \<Rightarrow> ('r \<Rightarrow> ListItem) \<Rightarrow> ('q \<Rightarrow> ListItem)
   \<Rightarrow> fetch_error + 'w list \<Rightarrow> fetch_error + 'b list \<Rightarrow> fetch_error + 'p list
   \<Rightarrow> fetch_error + 'r list \<Rightarrow> fetch_error + 'q list
   \<Rightarrow> Time \<Rightarrow> Time \<Rightarrow> ('w, 'b, 'p, 'r, 'q) App \<Rightarrow> ('w, 'b, 'p, 'r, 'q) App" where
  "refreshData rowW rowP rowR rowQ fW fB fP fR fQ stamp now a =
     (let a0 = a\<lparr>loading := True\<rparr>;
          a1 = (case fW of
                  Inr its \<Rightarrow> a0\<lparr>workItems := its, boards := SetWorkItems rowW its (boards a0)\<rparr>
                | Inl err \<Rightarrow> a0);
          a2 = (case fB of Inr bs \<Rightarrow> a1\<lparr>builds := bs\<rparr> | Inl err \<Rightarrow> a1);
          a3 = (case fP of
                  Inr ps \<Rightarrow> a2\<lparr>pipelineList := ps, pipelines := SetPipelines rowP ps (pipelines a2)\<rparr>
                | Inl err \<Rightarrow> a2);
          a4 = (case fR of
                  Inr rs \<Rightarrow> a3\<lparr>repoList := rs, repos := SetRepositories rowR rs (repos a3)\<rparr>
                | Inl err \<Rightarrow> a3);
          a5 = (case fQ of
                  Inr qs \<Rightarrow> a4\<lparr>prList := qs, prs := SetPullRequests rowQ qs (prs a4)\<rparr>
                | Inl err \<Rightarrow> a4);
          a6 = a5\<lparr>dashboard := SetData (workItems a5) (builds a5) (prList a5) (dashboard a5)\<rparr>;
          a7 = a6\<lparr>lastRefresh := stamp\<rparr>;
          a8 = a7\<lparr>loading := False\<rparr>;
          a9 = a8\<lparr>statusBar := SetLastRefresh (lastRefresh a8) (statusBar a8)\<rparr>
      in setStatus now ''Data refreshed'' a9)"

text \<open>
  \<^verbatim>\<open>render\<close>, as far as it changes state: unless the loading flag is up, the
  current view object's \<^verbatim>\<open>Render\<close> is called with the content height
  \<^verbatim>\<open>height - 7\<close>, and a list view stores \<^verbatim>\<open>height - 3\<close> of what it is given as
  its page height. What is written to the screen, and the help text, are left out.
\<close>

definition List_Render :: "int \<Rightarrow> List \<Rightarrow> List" where
  "List_Render h l = l\<lparr>height := h - 3\<rparr>"

definition view_Render :: "ViewID \<Rightarrow> int \<Rightarrow> ('w, 'b, 'p, 'r, 'q) App \<Rightarrow> ('w, 'b, 'p, 'r, 'q) App" where
  "view_Render v h a =
     (let a1 = a\<lparr>events := events a @ [EvRender v]\<rparr>
      in case v of
           ViewBoards \<Rightarrow> a1\<lparr>boards := (boards a1)\<lparr>boards_list := List_Render h (boards_list (boards a1))\<rparr>\<rparr>
         | ViewPipelines \<Rightarrow>
             a1\<lparr>pipelines := (pipelines a1)\<lparr>pipelines_list := List_Render h (pipelines_list (pipelines a1))\<rparr>\<rparr>
         | ViewRepos \<Rightarrow> a1\<lparr>repos := (repos a1)\<lparr>repos_list := List_Render h (repos_list (repos a1))\<rparr>\<rparr>
         | ViewPullRequests \<Rightarrow> a1\<lparr>prs := (prs a1)\<lparr>prs_list := List_Render h (prs_list (prs a1))\<rparr>\<rparr>
         | _ \<Rightarrow> a1)"

definition render :: "('w, 'b, 'p, 'r, 'q) App \<Rightarrow> ('w, 'b, 'p, 'r, 'q) App" where
  "render a =
     (let contentHeight = term_height a - 7
      in if loading a then a else view_Render (getCurrentView a) contentHeight a)"

section \<open>Auxiliary predicates and example states\<close>

text \<open>The tab bar's active index is a valid index into its tabs.\<close>

definition tab_inv :: "TabBar \<Rightarrow> bool" where
  "tab_inv t \<longleftrightarrow> 0 \<le> active t \<and> active t < int (length (tabs t))"

text \<open>
  The list's window for a positive page height: the scroll offset is within
  \<open>0 .. max 0 (count - height)\<close> of the active sequence and the selection lies in
  \<open>[scroll, scroll + height)\<close>.
\<close>

definition window_ok :: "List \<Rightarrow> bool" where
  "window_ok l \<longleftrightarrow>
     0 < height l \<and> 0 \<le> scroll l
     \<and> scroll l \<le> max 0 (int (length (activeIndices l)) - height l)
     \<and> scroll l \<le> selected l \<and> selected l < scroll l + height l"

text \<open>The six views that have a tab.\<close>

definition top_level :: "ViewID \<Rightarrow> bool" where
  "top_level v \<longleftrightarrow>
     v \<in> {ViewDashboard, ViewBoards, ViewPipelines, ViewRepos, ViewPullRequests, ViewCopilot}"

text \<open>
  The transitions that \<^verbatim>\<open>handleInput\<close> makes by assigning \<^verbatim>\<open>currentView\<close>
  itself instead of calling \<^verbatim>\<open>switchToView\<close>: into a detail view (the
  \<^verbatim>\<open>onSelect\<close> callbacks), and out of one by Escape or \<^verbatim>\<open>'b'\<close>.
\<close>

definition direct :: "Key \<Rightarrow> ('w, 'b, 'p, 'r, 'q) App \<Rightarrow> ('w, 'b, 'p, 'r, 'q) App \<Rightarrow> bool" where
  "direct key a a' \<longleftrightarrow>
     (\<not> isDetailView a \<and> isDetailView a')
     \<or> (isDetailView a \<and> (Type key = KeyEscape \<or> (Type key = KeyRune \<and> Rune key = 98)))"

text \<open>
  A list of three items drawn in a region of height 5, so that its page height is 2.
\<close>

definition three_items :: List where
  "three_items =
     List_Render 5 (SetItems [labelled ''a'', labelled ''b'', labelled ''c''] (NewList ''t''))"


text \<open>
  An application over numbered records: one refresh that fetched the single work item
  7, then key \<^verbatim>\<open>2\<close> (the Boards view).
\<close>

definition boards_app :: "(nat, nat, nat, nat, nat) App" where
  "boards_app =
     switchToView ViewBoards
       (refreshData (\<lambda>n. labelled ''work item'') (\<lambda>n. labelled ''pipeline'')
          (\<lambda>n. labelled ''repository'') (\<lambda>n. labelled ''pull request'')
          (Inr [7]) (Inr []) (Inr []) (Inr []) (Inr []) 1 2 (NewApp 120 40))"

text \<open>The navigation Dashboard, Boards, Copilot from a new application.\<close>

definition copilot_app :: "(nat, nat, nat, nat, nat) App" where
  "copilot_app = switchToView ViewCopilot (switchToView ViewBoards (NewApp 120 40))"

section \<open>Key decoding\<close>

text \<open>
  Claim C1. A read that delivers one to three bytes always decodes to a key, never to
  an error or a partial result. One byte: 3 is the interrupt, 9 Tab, 13 Enter, 27
  Escape, 127 Backspace, any other byte a rune key carrying that byte. Three bytes
  \<open>27, '[', 'A'/'B'/'C'/'D'\<close>: Up, Down, Right, Left. Every other shape of two or
  three bytes: a rune key carrying the first byte only (so 27 followed by more bytes
  is not Escape).
\<close>

theorem ReadKey_total_decode:
  fixes b0 b1 b2 :: "8 word" and n :: int
  assumes "1 \<le> n" and "n \<le> 3"
  shows "ReadKey (Inr (n, b0, b1, b2)) = Inr (
     if n = 1 then
       (if b0 = 3 then mkKey KeyCtrlC
        else if b0 = 9 then mkKey KeyTab
        else if b0 = 13 then mkKey KeyEnter
        else if b0 = 27 then mkKey KeyEscape
        else if b0 = 127 then mkKey KeyBackspace
        else \<lparr>Type = KeyRune, Rune = ucast b0\<rparr>)
     else if n = 3 \<and> b0 = 27 \<and> b1 = 91 \<and> b2 = 65 then mkKey KeyUp
     else if n = 3 \<and> b0 = 27 \<and> b1 = 91 \<and> b2 = 66 then mkKey KeyDown
     else if n = 3 \<and> b0 = 27 \<and> b1 = 91 \<and> b2 = 67 then mkKey KeyRight
     else if n = 3 \<and> b0 = 27 \<and> b1 = 91 \<and> b2 = 68 then mkKey KeyLeft
     else \<lparr>Type = KeyRune, Rune = ucast b0\<rparr>)"
  using assms by (simp add: ReadKey_def runeKey_def)

theorem ReadKey_total_decode_witness:
  "(1::int) \<le> 3 \<and> (3::int) \<le> 3
   \<and> ReadKey (Inr (3, 27, 91, 65)) = Inr \<lparr>Type = KeyUp, Rune = 0\<rparr>"
  using ReadKey_total_decode [of 3 27 91 65] by (simp add: mkKey_def)

section \<open>Truncation\<close>

text \<open>
  Claim C8. For \<open>max \<ge> 0\<close>, \<^verbatim>\<open>Truncate\<close> returns the text unchanged when its byte
  length is at most \<open>max\<close>; otherwise the first \<open>max\<close> bytes when \<open>max \<le> 3\<close>, and
  the first \<open>max - 3\<close> bytes followed by three dots when \<open>max > 3\<close>. It does not
  panic.
\<close>

theorem Truncate_spec:
  "0 \<le> mx \<Longrightarrow>
   Truncate s mx =
     Inr (if int (length s) \<le> mx then s
          else if mx \<le> 3 then take (nat mx) s
          else take (nat (mx - 3)) s @ ''...'')"
  by (auto simp: Truncate_def slice_to_def)

theorem Truncate_spec_witness:
  "(0::int) \<le> 8 \<and> Truncate ''hello world'' 8 = Inr ''hello...''"
  using Truncate_spec [of 8 "''hello world''"] by simp

section \<open>The tab bar\<close>

lemma smod_nonneg: "0 \<le> a \<Longrightarrow> 0 < b \<Longrightarrow> (a::int) smod b = a mod b"
  by (simp add: smod_int_alt_def sgn_if)

lemma succ_mod_bounds:
  fixes a n :: int
  assumes "0 \<le> a" "a < n"
  shows "0 \<le> (a + 1) mod n" "(a + 1) mod n < n"
proof -
  have "0 < n" using assms by linarith
  then show "0 \<le> (a + 1) mod n" "(a + 1) mod n < n" by simp_all
qed

lemma Next_times_active:
  "0 \<le> active t \<Longrightarrow> active t < int (length (tabs t)) \<Longrightarrow>
   Next_times k t = Inr (t\<lparr>active := (active t + int k) mod int (length (tabs t))\<rparr>)"
proof (induction k arbitrary: t)
  case 0
  then show ?case by simp
next
  case (Suc k)
  let ?n = "int (length (tabs t))"
  let ?t' = "t\<lparr>active := (active t + 1) mod ?n\<rparr>"
  from Suc.prems have nx: "Next t = Inr ?t'"
    by (auto simp: Next_def smod_nonneg)
  have "Next_times k ?t' = Inr (?t'\<lparr>active := (active ?t' + int k) mod int (length (tabs ?t'))\<rparr>)"
  proof (rule Suc.IH)
    show "0 \<le> active ?t'" using Suc.prems by (simp add: succ_mod_bounds)
    show "active ?t' < int (length (tabs ?t'))" using Suc.prems by (simp add: succ_mod_bounds)
  qed
  moreover have "((active t + 1) mod ?n + int k) mod ?n = (active t + int (Suc k)) mod ?n"
  proof -
    have "((active t + 1) mod ?n + int k) mod ?n = (active t + 1 + int k) mod ?n"
      by (rule mod_add_left_eq)
    also have "active t + 1 + int k = active t + int (Suc k)" by simp
    finally show ?thesis .
  qed
  ultimately show ?case using nx by simp
qed

text \<open>
  Claim C9. On a tab bar with \<open>N\<close> tabs whose active index is a valid index,
  \<^verbatim>\<open>Next\<close> does not panic and moves the active index one tab on, from the last
  tab back to the first (index 0); \<open>k\<close> calls in a row move it to
  \<open>(active + k) mod N\<close>; and so exactly \<open>N\<close> calls give back the tab bar they
  started from. (With no tab at all, \<open>N\<close> calls are no call.)
\<close>

theorem Next_cyclic:
  assumes "tabs t = [] \<or> (0 \<le> active t \<and> active t < int (length (tabs t)))"
  shows "Next_times (length (tabs t)) t = Inr t
       \<and> (tabs t \<noteq> [] \<longrightarrow>
            Next t = Inr (t\<lparr>active := (if active t + 1 = int (length (tabs t)) then 0
                                        else active t + 1)\<rparr>)
            \<and> (\<forall>k. Next_times k t =
                      Inr (t\<lparr>active := (active t + int k) mod int (length (tabs t))\<rparr>)))"
proof (cases "tabs t = []")
  case True
  then show ?thesis by simp
next
  case False
  with assms have v: "0 \<le> active t" "active t < int (length (tabs t))" by auto
  have step: "(active t + 1) mod int (length (tabs t))
              = (if active t + 1 = int (length (tabs t)) then 0 else active t + 1)"
    using v by simp
  have one: "Next t = Inr (t\<lparr>active := (if active t + 1 = int (length (tabs t)) then 0
                                          else active t + 1)\<rparr>)"
    using v False step by (simp add: Next_def smod_nonneg)
  have many: "Next_times k t = Inr (t\<lparr>active := (active t + int k) mod int (length (tabs t))\<rparr>)"
    for k
    using v by (rule Next_times_active)
  have "Next_times (length (tabs t)) t = Inr t"
    using v by (simp add: many)
  with one many show ?thesis by blast
qed

theorem Next_cyclic_witness:
  "(tabs (SetActive 5 (NewTabBar app_tabs)) = []
      \<or> (0 \<le> active (SetActive 5 (NewTabBar app_tabs))
          \<and> active (SetActive 5 (NewTabBar app_tabs))
              < int (length (tabs (SetActive 5 (NewTabBar app_tabs))))))
   \<and> active (SetActive 5 (NewTabBar app_tabs)) = 5
   \<and> length (tabs (SetActive 5 (NewTabBar app_tabs))) = 6
   \<and> Next (SetActive 5 (NewTabBar app_tabs)) = Inr (SetActive 0 (NewTabBar app_tabs))
   \<and> Next_times 2 (SetActive 5 (NewTabBar app_tabs)) = Inr (SetActive 1 (NewTabBar app_tabs))
   \<and> Next_times 6 (SetActive 5 (NewTabBar app_tabs)) = Inr (SetActive 5 (NewTabBar app_tabs))"
proof -
  let ?t = "SetActive 5 (NewTabBar app_tabs)"
  have la: "length app_tabs = 6" by (simp add: app_tabs_def)
  have t: "?t = \<lparr>tabs = app_tabs, active = 5\<rparr>"
    "SetActive 0 (NewTabBar app_tabs) = \<lparr>tabs = app_tabs, active = 0\<rparr>"
    "SetActive 1 (NewTabBar app_tabs) = \<lparr>tabs = app_tabs, active = 1\<rparr>"
    using la by (simp_all add: SetActive_def NewTabBar_def)
  have len: "length (tabs ?t) = 6" and act: "active ?t = 5" using la by (simp_all add: t)
  have ne: "tabs ?t \<noteq> []" using len by auto
  have h: "tabs ?t = [] \<or> (0 \<le> active ?t \<and> active ?t < int (length (tabs ?t)))"
    unfolding len act by simp
  note c = Next_cyclic [OF h]
  from c have n6: "Next_times 6 ?t = Inr ?t" unfolding len by blast
  from c ne have "Next ?t = Inr (?t\<lparr>active := (if active ?t + 1 = int (length (tabs ?t)) then 0
                                              else active ?t + 1)\<rparr>)"
    by blast
  then have n1: "Next ?t = Inr (SetActive 0 (NewTabBar app_tabs))"
    unfolding len act by (simp add: t)
  from c ne have "Next_times 2 ?t = Inr (?t\<lparr>active := (active ?t + int 2) mod int (length (tabs ?t))\<rparr>)"
    by blast
  then have n2: "Next_times 2 ?t = Inr (SetActive 1 (NewTabBar app_tabs))"
    unfolding len act by (simp add: t)
  from h act len n1 n2 n6 show ?thesis by blast
qed

lemma first_tab_with_ID_range:
  "first_tab_with_ID ident ts i = Some j \<Longrightarrow> i \<le> j \<and> j < i + int (length ts)"
  by (induction ts arbitrary: i) (fastforce split: if_splits)+

lemma tab_step_inv:
  assumes "tab_inv t"
  shows "\<exists>t'. tab_step op t = Inr t' \<and> tabs t' = tabs t \<and> tab_inv t'"
proof (cases op)
  case (OpSetActive i)
  then show ?thesis using assms by (simp add: SetActive_def tab_inv_def)
next
  case (OpSetActiveByID s)
  then show ?thesis using assms
    by (auto simp: SetActiveByID_def tab_inv_def split: option.splits
             dest: first_tab_with_ID_range)
next
  case OpNext
  have "(active t + 1) mod int (length (tabs t)) < int (length (tabs t))"
    "0 \<le> (active t + 1) mod int (length (tabs t))"
    using assms by (simp_all add: tab_inv_def succ_mod_bounds)
  then show ?thesis using OpNext assms
    by (auto simp: Next_def tab_inv_def smod_nonneg)
qed

lemma tab_run_inv:
  "tab_inv t \<Longrightarrow> \<exists>t'. tab_run ops t = Inr t' \<and> tabs t' = tabs t \<and> tab_inv t'"
proof (induction ops arbitrary: t)
  case Nil
  then show ?case by simp
next
  case (Cons op ops)
  from tab_step_inv [OF Cons.prems, of op]
  obtain t1 where s: "tab_step op t = Inr t1" "tabs t1 = tabs t" "tab_inv t1" by blast
  from Cons.IH [OF s(3)] s(1,2) show ?case by auto
qed

text \<open>
  Claim C10. A tab bar built by \<^verbatim>\<open>NewTabBar\<close> from at least one tab starts with a
  valid active index, and after any run of \<^verbatim>\<open>SetActive\<close>, \<^verbatim>\<open>SetActiveByID\<close> and
  \<^verbatim>\<open>Next\<close> calls (whatever their arguments) the run has not panicked, the tabs are
  the same, the active index is still valid, and \<^verbatim>\<open>ActiveTab\<close> returns a tab.
\<close>

theorem TabBar_invariant:
  assumes "ts \<noteq> []"
  shows "\<exists>t'. tab_run ops (NewTabBar ts) = Inr t' \<and> tabs t' = ts
            \<and> 0 \<le> active t' \<and> active t' < int (length ts) \<and> ActiveTab t' \<noteq> None"
proof -
  have "tab_inv (NewTabBar ts)" using assms by (simp add: tab_inv_def NewTabBar_def)
  from tab_run_inv [OF this, of ops]
  obtain t' where r: "tab_run ops (NewTabBar ts) = Inr t'" "tabs t' = tabs (NewTabBar ts)" "tab_inv t'"
    by blast
  then show ?thesis by (auto simp: tab_inv_def NewTabBar_def ActiveTab_def)
qed

theorem TabBar_invariant_witness:
  "app_tabs \<noteq> []
   \<and> (\<exists>t'. tab_run [OpNext, OpSetActive 7, OpSetActiveByID ''prs'', OpSetActiveByID ''none'', OpNext]
              (NewTabBar app_tabs) = Inr t'
          \<and> tabs t' = app_tabs \<and> 0 \<le> active t' \<and> active t' < int (length app_tabs)
          \<and> ActiveTab t' \<noteq> None)"
proof -
  have ne: "app_tabs \<noteq> []" by (simp add: app_tabs_def)
  from TabBar_invariant [OF ne] ne show ?thesis by blast
qed

section \<open>The list: scroll window\<close>

lemma activeIndices_cong:
  "items l' = items l \<Longrightarrow> filtered l' = filtered l \<Longrightarrow> activeIndices l' = activeIndices l"
  by (simp add: activeIndices_def)

lemma move_frame:
  "items (move m l) = items l \<and> filtered (move m l) = filtered l \<and> height (move m l) = height l"
  by (cases m) (simp_all add: MoveUp_def MoveDown_def MoveToTop_def MoveToBottom_def
        adjustScroll_def Let_def)

lemma MoveUp_ok: "window_ok l \<Longrightarrow> window_ok (MoveUp l)"
  unfolding window_ok_def MoveUp_def adjustScroll_def Let_def activeIndices_def
  by (auto split: if_splits)

lemma MoveDown_ok: "window_ok l \<Longrightarrow> window_ok (MoveDown l)"
  unfolding window_ok_def MoveDown_def adjustScroll_def Let_def activeIndices_def
  by (auto split: if_splits)

lemma MoveToTop_ok: "window_ok l \<Longrightarrow> window_ok (MoveToTop l)"
  unfolding window_ok_def MoveToTop_def activeIndices_def
  by (auto split: if_splits)

lemma MoveToBottom_ok: "window_ok l \<Longrightarrow> window_ok (MoveToBottom l)"
  unfolding window_ok_def MoveToBottom_def adjustScroll_def Let_def activeIndices_def
  by (auto split: if_splits)

lemma move_ok: "window_ok l \<Longrightarrow> window_ok (move m l)"
  by (cases m) (simp_all add: MoveUp_ok MoveDown_ok MoveToTop_ok MoveToBottom_ok)

lemma moves_ok: "window_ok l \<Longrightarrow> window_ok (moves ms l)"
  by (induction ms arbitrary: l) (simp_all add: move_ok)

lemma moves_frame:
  "items (moves ms l) = items l \<and> filtered (moves ms l) = filtered l
   \<and> height (moves ms l) = height l"
  by (induction ms arbitrary: l) (simp_all add: move_frame)

text \<open>
  Claim C2. Take a list whose page height is a fixed \<open>H > 0\<close>, with selection and
  scroll offset at 0 (as \<^verbatim>\<open>SetItems\<close>, \<^verbatim>\<open>ClearFilter\<close> and a non-empty
  \<^verbatim>\<open>SetFilter\<close> leave them) and a filtered subsequence no longer than the item
  sequence. After any run of \<^verbatim>\<open>MoveUp\<close>, \<^verbatim>\<open>MoveDown\<close>, \<^verbatim>\<open>MoveToTop\<close>,
  \<^verbatim>\<open>MoveToBottom\<close>: \<open>0 \<le> scroll \<le> max 0 (N - H)\<close>, for \<open>N\<close> the number of items
  and also for \<open>N\<close> the length of the active sequence, and
  \<open>scroll \<le> selection < scroll + H\<close>.
\<close>

theorem scroll_window_invariant:
  assumes H: "0 < H" and h: "height l = H"
    and fresh: "selected l = 0" "scroll l = 0"
    and sub: "length (filtered l) \<le> length (items l)"
  shows "0 \<le> scroll (moves ms l)
       \<and> scroll (moves ms l) \<le> max 0 (int (length (items l)) - H)
       \<and> scroll (moves ms l) \<le> max 0 (int (length (activeIndices l)) - H)
       \<and> scroll (moves ms l) \<le> selected (moves ms l)
       \<and> selected (moves ms l) < scroll (moves ms l) + H"
proof -
  have "window_ok l" using H h fresh by (simp add: window_ok_def)
  then have ok: "window_ok (moves ms l)" by (rule moves_ok)
  have act: "activeIndices (moves ms l) = activeIndices l"
    by (rule activeIndices_cong) (simp_all add: moves_frame)
  have len: "length (activeIndices l) \<le> length (items l)"
    using sub by (simp add: activeIndices_def)
  show ?thesis using ok act len h by (auto simp: window_ok_def moves_frame)
qed

theorem scroll_window_invariant_witness:
  "(0::int) < 2 \<and> height three_items = 2 \<and> selected three_items = 0 \<and> scroll three_items = 0
   \<and> length (filtered three_items) \<le> length (items three_items)
   \<and> length (items three_items) = 3
   \<and> selected (moves [Down, Down] three_items) = 2
   \<and> scroll (moves [Down, Down] three_items) = 1
   \<and> scroll (moves [Down, Down] three_items) \<le> max 0 (int (length (items three_items)) - 2)
   \<and> selected (moves [Down, Down] three_items) < scroll (moves [Down, Down] three_items) + 2"
proof -
  have h: "height three_items = 2" "selected three_items = 0" "scroll three_items = 0"
    "length (filtered three_items) \<le> length (items three_items)"
    by code_simp+
  have v: "length (items three_items) = 3" "selected (moves [Down, Down] three_items) = 2"
    "scroll (moves [Down, Down] three_items) = 1"
    by code_simp+
  have "(0::int) < 2" by simp
  from scroll_window_invariant [OF this h, of "[Down, Down]"] h v show ?thesis by simp
qed

section \<open>The list: filtering\<close>











section \<open>The refresh cycle\<close>

text \<open>
  Claim C4. In a refresh cycle whose builds fetch fails while the other four fetches
  succeed, the build collection keeps its value from before the cycle, work items,
  pipelines, repositories and pull requests take the fetched values, the last-refresh
  time is the stamp taken in the cycle (in the snapshot and in the status bar), the
  loading flag is down again, and the status message is \<open>Data refreshed\<close>.
\<close>

theorem refresh_builds_failed:
  "let a' = refreshData rowW rowP rowR rowQ (Inr ws) (Inl e) (Inr ps) (Inr rs) (Inr qs) stamp now a
   in builds a' = builds a \<and> workItems a' = ws \<and> pipelineList a' = ps \<and> repoList a' = rs
      \<and> prList a' = qs \<and> lastRefresh a' = stamp \<and> sb_lastRefresh (statusBar a') = stamp
      \<and> message (statusBar a') = ''Data refreshed'' \<and> loading a' = False"
  by (simp add: refreshData_def Let_def setStatus_def SetMessage_def SetLastRefresh_def)

section \<open>Escape\<close>

text \<open>
  Claim C6. Escape never panics, and the view that is current afterwards is: the
  recorded previous view when a detail view was current; the Dashboard when the
  Copilot view was current, whatever the recorded previous view; the same view as
  before in every other case.
\<close>

theorem escape_target:
  "Type key = KeyEscape \<Longrightarrow>
   map_sum id currentView (handleInput now reply key a) =
     Inr (if isDetailView a then previousView a
          else if currentView a = ViewCopilot then ViewDashboard
          else currentView a)"
  by (auto simp: handleInput_def switchToView_def Let_def view_OnEnter_def view_OnExit_def
        isDetailView_def)

theorem escape_target_witness:
  "Type (mkKey KeyEscape) = KeyEscape
   \<and> currentView copilot_app = ViewCopilot \<and> previousView copilot_app = ViewBoards
   \<and> map_sum id currentView (handleInput 0 (\<lambda>q. []) (mkKey KeyEscape) copilot_app)
       = Inr ViewDashboard"
proof -
  have c: "currentView copilot_app = ViewCopilot" "previousView copilot_app = ViewBoards"
    by code_simp+
  have k: "Type (mkKey KeyEscape) = KeyEscape" by (simp add: mkKey_def)
  from escape_target [OF k, of 0 "\<lambda>q. []" copilot_app] c k show ?thesis
    by (simp add: isDetailView_def)
qed

section \<open>Lifecycle hooks\<close>

text \<open>
  Claim C5 says that on every view transition, entering a detail view by selecting an
  item included, the exit hook of the view left is called before the enter hook of the
  view entered, and the enter hook before any render of that view. The code at a
  concrete input: in the Boards view with one work item selected, Enter makes the
  work-item detail view current, yet no \<^verbatim>\<open>OnExit\<close> of the Boards view and no
  \<^verbatim>\<open>OnEnter\<close> of the detail view is called. The log after the key is the log
  before it, and the next frame renders the detail view, which was never entered.
\<close>

theorem detail_entry_skips_hooks:
  "currentView boards_app = ViewBoards
   \<and> events boards_app = [EvOnExit ViewDashboard, EvOnEnter ViewBoards]
   \<and> map_sum id currentView (handleInput 3 (\<lambda>q. []) (mkKey KeyEnter) boards_app)
       = Inr ViewWorkItemDetail
   \<and> map_sum id events (handleInput 3 (\<lambda>q. []) (mkKey KeyEnter) boards_app)
       = Inr [EvOnExit ViewDashboard, EvOnEnter ViewBoards]
   \<and> map_sum id (events \<circ> render) (handleInput 3 (\<lambda>q. []) (mkKey KeyEnter) boards_app)
       = Inr [EvOnExit ViewDashboard, EvOnEnter ViewBoards, EvRender ViewWorkItemDetail]"
  by code_simp

text \<open>
  What \<^verbatim>\<open>handleInput\<close> does with the hooks on every change of the current view:
  a change made by \<^verbatim>\<open>switchToView\<close> (number keys, \<open>/\<close>, \<open>:\<close>, Tab, Escape in the
  Copilot view) calls \<^verbatim>\<open>OnExit\<close> of the view left and then \<^verbatim>\<open>OnEnter\<close> of the
  view entered, and nothing else; a change into a detail view, or out of one by Escape
  or \<open>b\<close>, calls no hook.
\<close>

lemma switchToView_events:
  "events (switchToView v a) =
     events a @ (if currentView a = v then []
                 else [EvOnExit (getCurrentView a), EvOnEnter (case v of ViewUnset \<Rightarrow> ViewDashboard | _ \<Rightarrow> v)])"
  by (cases v) (simp_all add: switchToView_def Let_def view_OnEnter_def view_OnExit_def getCurrentView_def)

lemma switchToView_current: "currentView (switchToView v a) = v"
  by (cases v) (simp_all add: switchToView_def Let_def view_OnEnter_def view_OnExit_def)

lemma view_HandleKey_effect:
  assumes "view_HandleKey reply key a = (h, a1)"
  shows "events a1 = events a"
    and "currentView a1 = currentView a \<or> (h \<and> \<not> isDetailView a \<and> isDetailView a1)"
  using assms
  by (auto simp: view_HandleKey_def showWorkItemDetail_def showPRDetail_def isDetailView_def
        getCurrentView_def Let_def BoardsView_HandleKey_def PullRequestsView_HandleKey_def
      split: ViewID.splits prod.splits option.splits if_splits)

lemma switchToTabView_cases:
  "switchToTabView b = b \<or> (\<exists>v. top_level v \<and> switchToTabView b = switchToView v b)"
  by (auto simp: switchToTabView_def top_level_def split: option.splits)

lemma switch_step:
  assumes tl: "top_level v" and ch: "currentView (switchToView v b) \<noteq> currentView a"
    and ev: "events b = events a" and cv: "currentView b = currentView a"
  shows "events (switchToView v b) = events a @ [EvOnExit (getCurrentView a), EvOnEnter (getCurrentView (switchToView v b))]"
    and "\<not> isDetailView (switchToView v b)"
proof -
  have ne: "currentView b \<noteq> v" using ch cv by (simp add: switchToView_current)
  have g: "getCurrentView (switchToView v b) = v"
    using tl by (auto simp: getCurrentView_def switchToView_current top_level_def)
  have gb: "getCurrentView b = getCurrentView a" using cv by (simp add: getCurrentView_def)
  have "(case v of ViewUnset \<Rightarrow> ViewDashboard | _ \<Rightarrow> v) = v"
    using tl by (auto simp: top_level_def)
  then show "events (switchToView v b) = events a @ [EvOnExit (getCurrentView a), EvOnEnter (getCurrentView (switchToView v b))]"
    using ne g gb ev by (simp add: switchToView_events)
  show "\<not> isDetailView (switchToView v b)"
    using tl by (auto simp: isDetailView_def switchToView_current top_level_def)
qed

lemma hooks_escape:
  assumes "handleInput now reply key a = Inr a'" "currentView a' \<noteq> currentView a"
    "Type key = KeyEscape"
  shows "events a' = events a @ (if direct key a a' then [] else [EvOnExit (getCurrentView a), EvOnEnter (getCurrentView a')])"
proof (cases "isDetailView a")
  case True
  then show ?thesis using assms by (auto simp: handleInput_def direct_def)
next
  case False
  with assms have cop: "currentView a = ViewCopilot" and a': "a' = switchToView ViewDashboard a"
    by (auto simp: handleInput_def split: if_splits)
  have "top_level ViewDashboard" by (simp add: top_level_def)
  from switch_step [OF this, of a a] assms(2) a' False show ?thesis
    by (simp add: direct_def)
qed

lemma hooks_handled:
  assumes "view_HandleKey reply key a = (True, a')" "currentView a' \<noteq> currentView a"
  shows "events a' = events a @ (if direct key a a' then [] else [EvOnExit (getCurrentView a), EvOnEnter (getCurrentView a')])"
  using view_HandleKey_effect [OF assms(1)] assms(2) by (auto simp: direct_def)

lemma hooks_rune:
  assumes vh: "view_HandleKey reply key a = (False, a1)"
    and hi: "handleInput now reply key a = Inr a'" and ch: "currentView a' \<noteq> currentView a"
    and ty: "Type key = KeyRune"
  shows "events a' = events a @ (if direct key a a' then [] else [EvOnExit (getCurrentView a), EvOnEnter (getCurrentView a')])"
proof -
  from view_HandleKey_effect [OF vh] have ev: "events a1 = events a" and cv: "currentView a1 = currentView a"
    by auto
  have det: "isDetailView a1 = isDetailView a" using cv by (simp add: isDetailView_def)
  define P where "P x \<longleftrightarrow> (currentView x \<noteq> currentView a \<longrightarrow>
     events x = events a @ (if direct key a x then [] else [EvOnExit (getCurrentView a), EvOnEnter (getCurrentView x)]))"
    for x :: "('a, 'b, 'c, 'd, 'e) App"
  have sw: "P (switchToView v a1)" if "top_level v" "Rune key \<noteq> 98" for v
    unfolding P_def using switch_step [OF that(1) _ ev cv] that(2) ty
    by (auto simp: direct_def)
  have stay: "P x" if "currentView x = currentView a1" for x
    unfolding P_def using that cv by simp
  have ret: "P (a1\<lparr>currentView := previousView a1\<rparr>)" if "Rune key = 98" "isDetailView a1"
    unfolding P_def using that ev det ty by (simp add: direct_def)
  have a'_eq: "a' =
    (if Rune key = 113 \<or> Rune key = 81 then a1\<lparr>running := False\<rparr>
     else if Rune key = 49 then switchToView ViewDashboard a1
     else if Rune key = 50 then switchToView ViewBoards a1
     else if Rune key = 51 then switchToView ViewPipelines a1
     else if Rune key = 52 then switchToView ViewRepos a1
     else if Rune key = 53 then switchToView ViewPullRequests a1
     else if Rune key = 47 \<or> Rune key = 58 then switchToView ViewCopilot a1
     else if Rune key = 114 \<or> Rune key = 82 then
       (setStatus now ''Refreshing...'' a1)\<lparr>refreshesLaunched := Suc (refreshesLaunched a1)\<rparr>
     else if Rune key = 98 then
       (if isDetailView a1 then a1\<lparr>currentView := previousView a1\<rparr> else a1)
     else a1)"
    using hi vh ty by (simp add: handleInput_def)
  have tl: "top_level ViewDashboard" "top_level ViewBoards" "top_level ViewPipelines"
    "top_level ViewRepos" "top_level ViewPullRequests" "top_level ViewCopilot"
    by (simp_all add: top_level_def)
  have "P a'"
    unfolding a'_eq by (simp add: sw stay ret tl setStatus_def)
  then show ?thesis using ch by (simp add: P_def)
qed

lemma hooks_tab:
  assumes vh: "view_HandleKey reply key a = (False, a1)"
    and hi: "handleInput now reply key a = Inr a'" and ch: "currentView a' \<noteq> currentView a"
    and ty: "Type key = KeyTab"
  shows "events a' = events a @ (if direct key a a' then [] else [EvOnExit (getCurrentView a), EvOnEnter (getCurrentView a')])"
proof -
  from view_HandleKey_effect [OF vh] have ev: "events a1 = events a" and cv: "currentView a1 = currentView a"
    by auto
  from hi vh ty obtain t where a': "a' = switchToTabView (a1\<lparr>tabBar := t\<rparr>)"
    by (auto simp: handleInput_def split: sum.splits)
  let ?b = "a1\<lparr>tabBar := t\<rparr>"
  have evb: "events ?b = events a" and cvb: "currentView ?b = currentView a" using ev cv by simp_all
  from switchToTabView_cases [of ?b] ch a' cvb
  obtain v where v: "top_level v" "a' = switchToView v ?b" by auto
  from switch_step [OF v(1) _ evb cvb] ch v(2) show ?thesis
    using ty by (auto simp: direct_def)
qed

lemma lifecycle_hooks_on_transition:
  assumes hi: "handleInput now reply key a = Inr a'" and ch: "currentView a' \<noteq> currentView a"
  shows "events a' = events a @ (if direct key a a' then [] else [EvOnExit (getCurrentView a), EvOnEnter (getCurrentView a')])"
proof -
  obtain h a1 where vh: "view_HandleKey reply key a = (h, a1)" by fastforce
  consider (ctrlc) "Type key = KeyCtrlC" | (esc) "Type key = KeyEscape"
    | (handled) "Type key \<noteq> KeyCtrlC" "Type key \<noteq> KeyEscape" "h"
    | (rune) "\<not> h" "Type key = KeyRune" | (tab) "\<not> h" "Type key = KeyTab"
    | (other) "\<not> h" "Type key \<notin> {KeyCtrlC, KeyEscape, KeyRune, KeyTab}"
    by auto
  then show ?thesis
  proof cases
    case ctrlc
    then show ?thesis using hi ch by (auto simp: handleInput_def)
  next
    case esc
    from hooks_escape [OF hi ch esc] show ?thesis .
  next
    case handled
    with hi vh have "a' = a1" by (simp add: handleInput_def)
    with vh handled have "view_HandleKey reply key a = (True, a')" by simp
    from hooks_handled [OF this ch] show ?thesis .
  next
    case rune
    with vh have "view_HandleKey reply key a = (False, a1)" by simp
    from hooks_rune [OF this hi ch rune(2)] show ?thesis .
  next
    case tab
    with vh have "view_HandleKey reply key a = (False, a1)" by simp
    from hooks_tab [OF this hi ch tab(2)] show ?thesis .
  next
    case other
    with hi vh have "a' = a1" by (simp add: handleInput_def)
    with view_HandleKey_effect(2) [OF vh] other ch show ?thesis by simp
  qed
qed

section \<open>First refusal of the active view\<close>

lemma string_of_rune_r: "string_of_rune 114 = ''r''"
  by code_simp

text \<open>
  Claim C7. For a rune key, whenever the current view's handler reports the key as
  handled, the result of the dispatch is exactly the state the handler left: no global
  shortcut runs. In the Copilot view every rune key only appends the rune to the input
  buffer; for \<open>r\<close> the buffer gains the byte \<open>r\<close> and nothing else in the
  application changes, so no refresh is launched, the status is untouched, and the
  view and the running flag stay as they were.
\<close>

theorem view_first_refusal:
  assumes "Type key = KeyRune"
  shows "(case view_HandleKey reply key a of
            (handled, a1) \<Rightarrow> handled \<longrightarrow> handleInput now reply key a = Inr a1)
       \<and> (currentView a = ViewCopilot \<longrightarrow>
            handleInput now reply key a =
              Inr (a\<lparr>copilot := (copilot a)\<lparr>copilot_input :=
                     InsertChar (Rune key) (copilot_input (copilot a))\<rparr>\<rparr>))
       \<and> (currentView a = ViewCopilot \<and> Rune key = 114 \<longrightarrow>
            handleInput now reply key a =
              Inr (a\<lparr>copilot := (copilot a)\<lparr>copilot_input :=
                     (copilot_input (copilot a))\<lparr>input_value :=
                        input_value (copilot_input (copilot a)) @ ''r''\<rparr>\<rparr>\<rparr>))"
  using assms
  by (auto simp: handleInput_def view_HandleKey_def getCurrentView_def CopilotView_HandleKey_def
        InsertChar_def string_of_rune_r isDetailView_def split: prod.splits)

theorem view_first_refusal_witness:
  "Type (runeKey 114) = KeyRune \<and> Rune (runeKey 114) = 114
   \<and> currentView copilot_app = ViewCopilot
   \<and> map_sum id (\<lambda>a. input_value (copilot_input (copilot a)))
        (handleInput 0 (\<lambda>q. []) (runeKey 114) copilot_app) = Inr ''r''
   \<and> map_sum id refreshesLaunched (handleInput 0 (\<lambda>q. []) (runeKey 114) copilot_app) = Inr 0
   \<and> map_sum id currentView (handleInput 0 (\<lambda>q. []) (runeKey 114) copilot_app) = Inr ViewCopilot"
proof -
  have c: "currentView copilot_app = ViewCopilot"
    "input_value (copilot_input (copilot copilot_app)) = []"
    "refreshesLaunched copilot_app = 0"
    by code_simp+
  have k: "Type (runeKey 114) = KeyRune" "Rune (runeKey 114) = 114"
    by (simp_all add: runeKey_def)
  from view_first_refusal [OF k(1), where reply = "\<lambda>q. []" and a = copilot_app and now = 0] c k
  show ?thesis by (simp add: InsertChar_def string_of_rune_r)
qed

end
